theory Spec2Isabelle
  imports Complex_Main
begin

section \<open>JavaScript values and the object store\<close>

text \<open>
  The payload handed to \<^verbatim>\<open>UserBuilder.dataConstructor\<close> has the TypeScript type
  \<^verbatim>\<open>any\<close>, and the function assigns to properties of the objects it is given. The
  model therefore keeps objects in an explicit store: a value is a primitive, a
  \<^verbatim>\<open>Date\<close> or a reference to an object, and an object is a finite table from
  property names to values. Two references are the same object exactly when the
  addresses are equal, so aliasing between the envelope, its data and the metadata is
  part of the model.

  Functions are not values of the model (a wire payload carries none), and objects are
  plain extensible data objects: no getters, setters, proxies or frozen objects.
\<close>

type_synonym addr = nat

text \<open>
  The time value of a \<^verbatim>\<open>Date\<close>: milliseconds since the epoch, or \<open>None\<close> for the
  \<^verbatim>\<open>NaN\<close> time value of an invalid date.
\<close>

type_synonym timeval = "int option"

datatype jsnumber = NaN | PlusInfinity | MinusInfinity | Finite rat

datatype jsval =
    JUndefined
  | JNull
  | JBool bool
  | JNum jsnumber
  | JStr string
  | JDate timeval
  | JRef addr

type_synonym obj = "string \<rightharpoonup> jsval"

type_synonym heap = "addr \<Rightarrow> obj"

datatype error = TypeError

text \<open>
  A JavaScript computation: it runs on a store and gives back either the exception it
  threw or its value, together with the store as it is at that moment.
\<close>

type_synonym 'a js = "heap \<Rightarrow> (error + 'a) \<times> heap"

definition return_js :: "'a \<Rightarrow> 'a js" where
  "return_js v h = (Inr v, h)"

definition throw_js :: "error \<Rightarrow> 'a js" where
  "throw_js e h = (Inl e, h)"

definition bind_js :: "'a js \<Rightarrow> ('a \<Rightarrow> 'b js) \<Rightarrow> 'b js" where
  "bind_js m f h = (case m h of (Inl e, h') \<Rightarrow> (Inl e, h') | (Inr v, h') \<Rightarrow> f v h')"

text \<open>
  \<^verbatim>\<open>v.k\<close> for the property names the normalizer reads (\<^verbatim>\<open>data\<close>, \<^verbatim>\<open>metadata\<close>,
  \<^verbatim>\<open>lastSignedInAt\<close>, \<^verbatim>\<open>createdAt\<close>, \<^verbatim>\<open>uid\<close>): reading a property of
  \<^verbatim>\<open>undefined\<close> or \<^verbatim>\<open>null\<close> throws a TypeError, a missing property of an object
  reads as \<^verbatim>\<open>undefined\<close>, and booleans, numbers, strings and dates have none of
  these properties.
\<close>

fun get_prop :: "jsval \<Rightarrow> string \<Rightarrow> jsval js" where
  "get_prop JUndefined k h = (Inl TypeError, h)"
| "get_prop JNull k h = (Inl TypeError, h)"
| "get_prop (JRef a) k h = (Inr (case h a k of None \<Rightarrow> JUndefined | Some v \<Rightarrow> v), h)"
| "get_prop (JBool b) k h = (Inr JUndefined, h)"
| "get_prop (JNum n) k h = (Inr JUndefined, h)"
| "get_prop (JStr s) k h = (Inr JUndefined, h)"
| "get_prop (JDate t) k h = (Inr JUndefined, h)"

text \<open>
  \<^verbatim>\<open>v.k = x\<close>: on an object the property is created or overwritten in place. The
  module is compiled in strict mode, where assigning to a property of a primitive
  throws a TypeError, as it does on \<^verbatim>\<open>undefined\<close> and \<^verbatim>\<open>null\<close>.
\<close>

fun set_prop :: "jsval \<Rightarrow> string \<Rightarrow> jsval \<Rightarrow> unit js" where
  "set_prop (JRef a) k x h = (Inr (), h(a := (h a)(k \<mapsto> x)))"
| "set_prop JUndefined k x h = (Inl TypeError, h)"
| "set_prop JNull k x h = (Inl TypeError, h)"
| "set_prop (JBool b) k x h = (Inl TypeError, h)"
| "set_prop (JNum n) k x h = (Inl TypeError, h)"
| "set_prop (JStr s) k x h = (Inl TypeError, h)"
| "set_prop (JDate t) k x h = (Inl TypeError, h)"

text \<open>
  The condition of an \<^verbatim>\<open>if\<close> and the left operand of \<^verbatim>\<open>&&\<close> are converted by
  ToBoolean: \<^verbatim>\<open>undefined\<close>, \<^verbatim>\<open>null\<close>, \<^verbatim>\<open>false\<close>, zero, \<^verbatim>\<open>NaN\<close> and the empty
  string are falsy, everything else is truthy.
\<close>

fun truthy :: "jsval \<Rightarrow> bool" where
  "truthy JUndefined = False"
| "truthy JNull = False"
| "truthy (JBool b) = b"
| "truthy (JNum n) = (n \<noteq> NaN \<and> n \<noteq> Finite 0)"
| "truthy (JStr s) = (s \<noteq> [])"
| "truthy (JDate t) = True"
| "truthy (JRef a) = True"

fun typeof :: "jsval \<Rightarrow> string" where
  "typeof JUndefined = ''undefined''"
| "typeof JNull = ''object''"
| "typeof (JBool b) = ''boolean''"
| "typeof (JNum n) = ''number''"
| "typeof (JStr s) = ''string''"
| "typeof (JDate t) = ''object''"
| "typeof (JRef a) = ''object''"

subsection \<open>The string methods used on the identifier\<close>

text \<open>
  Strings are character lists. \<^verbatim>\<open>s.lastIndexOf(c)\<close> is the index of the last
  occurrence of \<open>c\<close> in \<open>s\<close>, or \<open>-1\<close> when there is none; the scan keeps the
  position \<open>i\<close> of the character it looks at and the last match seen so far.
\<close>

fun last_index_from :: "char \<Rightarrow> string \<Rightarrow> int \<Rightarrow> int \<Rightarrow> int" where
  "last_index_from c [] i found = found"
| "last_index_from c (x # xs) i found =
     last_index_from c xs (i + 1) (if x = c then i else found)"

definition lastIndexOf :: "string \<Rightarrow> char \<Rightarrow> int" where
  "lastIndexOf s c = last_index_from c s 0 (- 1)"

text \<open>
  \<^verbatim>\<open>s.substring(start)\<close>: the start index is clamped to the range from \<open>0\<close> to the
  length of \<open>s\<close>, and the rest of the string from there is returned.
\<close>

definition substring :: "string \<Rightarrow> int \<Rightarrow> string" where
  "substring s start = drop (nat (max 0 (min start (int (length s))))) s"

section \<open>The normalizer: \<^verbatim>\<open>UserBuilder.dataConstructor\<close>\<close>

text \<open>
  \<^verbatim>\<open>new Date(s)\<close> on a string never throws: it yields the date whose time value is
  \<^verbatim>\<open>Date.parse(s)\<close>, which is \<^verbatim>\<open>NaN\<close> when the string cannot be parsed. The host's
  \<^verbatim>\<open>Date.parse\<close> is the parameter \<open>parse\<close> of the model.

  The function follows the source statement by statement: the metadata block (lines 44
  to 52 of \<^verbatim>\<open>auth.ts\<close>), the identifier block (lines 62 to 64) and the return of
  \<^verbatim>\<open>raw.data\<close> (line 66). A property that the source reads several times in a row
  is read once where no assignment lies between the reads, and \<^verbatim>\<open>raw.data\<close> is read
  again after the assignments. A \<^verbatim>\<open>typeof x === 'string'\<close> test holds exactly for the
  values \<open>JStr s\<close>. Calling \<^verbatim>\<open>substring\<close> on a truthy \<^verbatim>\<open>uid\<close> that is not a string
  throws a TypeError, since no other value of the model has a callable property of that
  name.
\<close>

definition new_Date :: "(string \<Rightarrow> timeval) \<Rightarrow> string \<Rightarrow> jsval" where
  "new_Date parse s = JDate (parse s)"

definition dataConstructor :: "(string \<Rightarrow> timeval) \<Rightarrow> jsval \<Rightarrow> jsval js" where
  "dataConstructor parse raw =
     bind_js (get_prop raw ''data'') (\<lambda>data.
     bind_js (get_prop data ''metadata'') (\<lambda>metadata.
     bind_js
       (if truthy metadata then
          bind_js (get_prop metadata ''lastSignedInAt'') (\<lambda>lastSignedInAt.
          bind_js
            (if truthy lastSignedInAt \<and> typeof lastSignedInAt = ''string'' then
               (case lastSignedInAt of
                  JStr s \<Rightarrow> set_prop metadata ''lastSignedInAt'' (new_Date parse s)
                | _ \<Rightarrow> return_js ())
             else return_js ()) (\<lambda>_.
          bind_js (get_prop metadata ''createdAt'') (\<lambda>createdAt.
            if truthy createdAt \<and> typeof createdAt = ''string'' then
              (case createdAt of
                 JStr s \<Rightarrow> set_prop metadata ''createdAt'' (new_Date parse s)
               | _ \<Rightarrow> return_js ())
            else return_js ())))
        else return_js ()) (\<lambda>_.
     bind_js (get_prop raw ''data'') (\<lambda>data.
     bind_js (get_prop data ''uid'') (\<lambda>uid.
     bind_js
       (if truthy uid then
          (case uid of
             JStr s \<Rightarrow> set_prop data ''uid'' (JStr (substring s (lastIndexOf s CHR ''/'' + 1)))
           | _ \<Rightarrow> throw_js TypeError)
        else return_js ()) (\<lambda>_.
     get_prop raw ''data''))))))"

section \<open>The builder: \<^verbatim>\<open>user\<close>, \<^verbatim>\<open>UserBuilder.onCreate\<close>, \<^verbatim>\<open>UserBuilder.onDelete\<close>\<close>

definition provider :: string where
  "provider = ''firebase.auth''"

record UserBuilder =
  resource :: string

text \<open>
  \<^verbatim>\<open>process.env\<close> is a table from variable names to strings. An unset variable reads
  as \<^verbatim>\<open>undefined\<close>, which string concatenation turns into the text \<^verbatim>\<open>undefined\<close>.
\<close>

type_synonym env = "string \<rightharpoonup> string"

definition user :: "env \<Rightarrow> UserBuilder" where
  "user process_env =
     \<lparr>resource = ''projects/'' @
        (case process_env ''GCLOUD_PROJECT'' of None \<Rightarrow> ''undefined'' | Some v \<Rightarrow> v)\<rparr>"

text \<open>
  The handler descriptor that the runtime consumes. The user callback is a value of an
  arbitrary type \<open>'h\<close>: the builder stores it and never calls it.
\<close>

record 'h descriptor =
  providerId :: string
  resource :: string
  eventType :: string
  normalize :: "(string \<Rightarrow> timeval) \<Rightarrow> jsval \<Rightarrow> jsval js"
  handler :: 'h

text \<open>
  Modelled from the spec: \<^verbatim>\<open>makeCloudFunction\<close> is imported from
  \<^verbatim>\<open>../cloud-functions\<close>, which is not among the source files. The spec gives the
  output of an entry point as a handler descriptor binding the provider id, the
  resource, the event-type string, the data normalizer and the user callback it was
  given, and its shape as \<^verbatim>\<open>{ providerId, resource, eventType, normalize, handler }\<close>.
\<close>

definition makeCloudFunction ::
  "string \<Rightarrow> 'h \<Rightarrow> string \<Rightarrow> string \<Rightarrow> ((string \<Rightarrow> timeval) \<Rightarrow> jsval \<Rightarrow> jsval js)
     \<Rightarrow> 'h descriptor" where
  "makeCloudFunction provider' handler' resource' eventType' dataConstructor' =
     \<lparr>providerId = provider', resource = resource', eventType = eventType',
      normalize = dataConstructor', handler = handler'\<rparr>"

definition onCreate :: "UserBuilder \<Rightarrow> 'h \<Rightarrow> 'h descriptor" where
  "onCreate this handler' =
     makeCloudFunction provider handler' (UserBuilder.resource this) ''user.create''
       dataConstructor"

definition onDelete :: "UserBuilder \<Rightarrow> 'h \<Rightarrow> 'h descriptor" where
  "onDelete this handler' =
     makeCloudFunction provider handler' (UserBuilder.resource this) ''user.delete''
       dataConstructor"

section \<open>The envelope: \<^verbatim>\<open>FirebaseEvent\<close>\<close>

text \<open>
  The constructor reads six properties of its options object and assigns them to six
  properties of the new object, in this order. An assignment creates the property even
  when the value read is \<^verbatim>\<open>undefined\<close>. The model gives the property table of the
  new object.
\<close>

definition option_of :: "obj \<Rightarrow> string \<Rightarrow> jsval" where
  "option_of options k = (case options k of None \<Rightarrow> JUndefined | Some v \<Rightarrow> v)"

definition FirebaseEvent :: "obj \<Rightarrow> obj" where
  "FirebaseEvent options =
     [''service'' \<mapsto> option_of options ''service'',
      ''type'' \<mapsto> option_of options ''type'',
      ''instance'' \<mapsto> option_of options ''instance'',
      ''uid'' \<mapsto> option_of options ''uid'',
      ''deviceId'' \<mapsto> option_of options ''deviceId'',
      ''data'' \<mapsto> option_of options ''data'']"

section \<open>Payload shapes\<close>

text \<open>
  The data object of an envelope: \<open>raw\<close> is an object whose \<^verbatim>\<open>data\<close> property is an
  object, at address \<open>d\<close>.
\<close>

definition data_of :: "heap \<Rightarrow> jsval \<Rightarrow> addr option" where
  "data_of h raw =
     (case raw of
        JRef r \<Rightarrow> (case h r ''data'' of Some (JRef d) \<Rightarrow> Some d | _ \<Rightarrow> None)
      | _ \<Rightarrow> None)"

text \<open>An optional property that, when present, is a string.\<close>

definition optional_string :: "jsval option \<Rightarrow> bool" where
  "optional_string v = (case v of None \<Rightarrow> True | Some (JStr s) \<Rightarrow> True | Some _ \<Rightarrow> False)"

text \<open>An optional temporal property: absent, a string still to be parsed, or a date.\<close>

definition optional_temporal :: "jsval option \<Rightarrow> bool" where
  "optional_temporal v =
     (case v of None \<Rightarrow> True | Some (JStr s) \<Rightarrow> True | Some (JDate t) \<Rightarrow> True
      | Some _ \<Rightarrow> False)"

text \<open>
  The documented wire shape: an object with a \<^verbatim>\<open>data\<close> object whose optional
  \<^verbatim>\<open>uid\<close> is a string and whose optional \<^verbatim>\<open>metadata\<close> is an object holding the
  two optional temporal fields.
\<close>

definition wire_shape :: "heap \<Rightarrow> jsval \<Rightarrow> bool" where
  "wire_shape h raw =
     (case data_of h raw of
        None \<Rightarrow> False
      | Some d \<Rightarrow>
          optional_string (h d ''uid'') \<and>
          (case h d ''metadata'' of
             None \<Rightarrow> True
           | Some (JRef m) \<Rightarrow>
               optional_temporal (h m ''createdAt'') \<and>
               optional_temporal (h m ''lastSignedInAt'')
           | Some _ \<Rightarrow> False))"

text \<open>What a property holds: a string, a non-empty string, a string with a separator.\<close>

definition is_string :: "jsval option \<Rightarrow> bool" where
  "is_string v = (case v of Some (JStr s) \<Rightarrow> True | _ \<Rightarrow> False)"

definition is_nonempty_string :: "jsval option \<Rightarrow> bool" where
  "is_nonempty_string v = (case v of Some (JStr s) \<Rightarrow> s \<noteq> [] | _ \<Rightarrow> False)"

definition has_separator :: "jsval option \<Rightarrow> bool" where
  "has_separator v = (case v of Some (JStr s) \<Rightarrow> CHR ''/'' \<in> set s | _ \<Rightarrow> False)"

text \<open>
  A data object that is already normalized: no temporal field of its metadata is a
  string, and its identifier has no path separator.
\<close>

definition normalized :: "heap \<Rightarrow> addr \<Rightarrow> bool" where
  "normalized h d =
     (\<not> has_separator (h d ''uid'') \<and>
      (case h d ''metadata'' of
         Some (JRef m) \<Rightarrow>
           \<not> is_string (h m ''createdAt'') \<and> \<not> is_string (h m ''lastSignedInAt'')
       | _ \<Rightarrow> True))"

text \<open>
  A data object on which one of the two repairs applies: its identifier has a path
  separator, or a temporal field of its metadata is a non-empty string.
\<close>

definition repairable :: "heap \<Rightarrow> addr \<Rightarrow> bool" where
  "repairable h d =
     (has_separator (h d ''uid'') \<or>
      (case h d ''metadata'' of
         Some (JRef m) \<Rightarrow>
           is_nonempty_string (h m ''createdAt'') \<or>
           is_nonempty_string (h m ''lastSignedInAt'')
       | _ \<Rightarrow> False))"

section \<open>The store after each repair\<close>

text \<open>
  Closed forms of the two repairs, used to reason about the store that
  \<open>dataConstructor\<close> leaves behind.
\<close>

definition field :: "heap \<Rightarrow> addr \<Rightarrow> string \<Rightarrow> jsval" where
  "field h a k = (case h a k of None \<Rightarrow> JUndefined | Some v \<Rightarrow> v)"

definition coerced :: "(string \<Rightarrow> timeval) \<Rightarrow> jsval \<Rightarrow> string \<Rightarrow> heap \<Rightarrow> heap" where
  "coerced parse metadata k h =
     (case metadata of
        JRef m \<Rightarrow>
          (case h m k of
             Some (JStr s) \<Rightarrow> if s = [] then h else h(m := (h m)(k \<mapsto> JDate (parse s)))
           | _ \<Rightarrow> h)
      | _ \<Rightarrow> h)"

definition canonical :: "addr \<Rightarrow> heap \<Rightarrow> heap" where
  "canonical d h =
     (case h d ''uid'' of
        Some (JStr s) \<Rightarrow>
          if s = [] then h
          else h(d := (h d)(''uid'' \<mapsto> JStr (substring s (lastIndexOf s CHR ''/'' + 1))))
      | _ \<Rightarrow> h)"

definition repaired :: "(string \<Rightarrow> timeval) \<Rightarrow> addr \<Rightarrow> heap \<Rightarrow> heap" where
  "repaired parse d h =
     canonical d
       (coerced parse (field h d ''metadata'') ''createdAt''
          (coerced parse (field h d ''metadata'') ''lastSignedInAt'' h))"

section \<open>Example stores\<close>

text \<open>
  A store given as a table of objects, each a list of properties; every other address
  holds an object without properties.
\<close>

definition heap_of :: "(addr \<times> (string \<times> jsval) list) list \<Rightarrow> heap" where
  "heap_of objs a = (case map_of objs a of None \<Rightarrow> Map.empty | Some ps \<Rightarrow> map_of ps)"

text \<open>
  A stand-in for the host's \<^verbatim>\<open>Date.parse\<close> on the strings of the examples: the two
  instants in milliseconds since the epoch, and an invalid date for anything else.
\<close>

definition example_parse :: "string \<Rightarrow> timeval" where
  "example_parse s =
     (if s = ''2024-01-01T00:00:00Z'' then Some 1704067200000
      else if s = ''2020-05-01T00:00:00Z'' then Some 1588291200000
      else None)"

text \<open>\<^verbatim>\<open>{ data: { uid: "http://provider.example/12345" } }\<close>\<close>

definition url_uid_heap :: heap where
  "url_uid_heap =
     heap_of [(0, [(''data'', JRef 1)]),
              (1, [(''uid'', JStr ''http://provider.example/12345'')])]"

text \<open>\<^verbatim>\<open>{ data: { uid: "a/b/c" } }\<close>, \<^verbatim>\<open>{ data: { uid: "12345" } }\<close> and \<^verbatim>\<open>{ data: {} }\<close>\<close>

definition path_uid_heap :: heap where
  "path_uid_heap = heap_of [(0, [(''data'', JRef 1)]), (1, [(''uid'', JStr ''a/b/c'')])]"

definition bare_uid_heap :: heap where
  "bare_uid_heap = heap_of [(0, [(''data'', JRef 1)]), (1, [(''uid'', JStr ''12345'')])]"

definition no_uid_heap :: heap where
  "no_uid_heap = heap_of [(0, [(''data'', JRef 1)])]"

text \<open>
  The envelope of the end-to-end scenario:
  \<^verbatim>\<open>{ service: "auth", type: "user.create", resource: "projects/p1",
     data: { uid: "http://x/99", metadata: { createdAt: "2020-05-01T00:00:00Z" } } }\<close>
\<close>

definition scenario_heap :: heap where
  "scenario_heap =
     heap_of [(0, [(''service'', JStr ''auth''), (''type'', JStr ''user.create''),
                   (''resource'', JStr ''projects/p1''), (''data'', JRef 1)]),
              (1, [(''uid'', JStr ''http://x/99''), (''metadata'', JRef 2)]),
              (2, [(''createdAt'', JStr ''2020-05-01T00:00:00Z'')])]"

text \<open>
  \<^verbatim>\<open>{ data: { uid: "", metadata: { createdAt: "", lastSignedInAt: "" } } }\<close>
\<close>

definition empty_strings_heap :: heap where
  "empty_strings_heap =
     heap_of [(0, [(''data'', JRef 1)]),
              (1, [(''uid'', JStr []), (''metadata'', JRef 2)]),
              (2, [(''createdAt'', JStr []), (''lastSignedInAt'', JStr [])])]"

text \<open>
  \<^verbatim>\<open>{ data: { uid: "12345", displayName: "Ann",
     metadata: { createdAt: <date>, lastSignedInAt: "not a date" } } }\<close>
\<close>

definition malformed_heap :: heap where
  "malformed_heap =
     heap_of [(0, [(''data'', JRef 1)]),
              (1, [(''uid'', JStr ''12345''), (''displayName'', JStr ''Ann''),
                   (''metadata'', JRef 2)]),
              (2, [(''createdAt'', JDate (Some 1704067200000)),
                   (''lastSignedInAt'', JStr ''not a date'')])]"

text \<open>
  \<^verbatim>\<open>{ data: { uid: "12345", metadata: { createdAt: <date> } } }\<close>, already normalized.
\<close>

definition normalized_heap :: heap where
  "normalized_heap =
     heap_of [(0, [(''data'', JRef 1)]),
              (1, [(''uid'', JStr ''12345''), (''metadata'', JRef 2)]),
              (2, [(''createdAt'', JDate (Some 1704067200000))])]"

text \<open>
  Options for an envelope: first with declared properties only, then with a
  \<^verbatim>\<open>resource\<close> property beside them.
\<close>

definition declared_options :: obj where
  "declared_options =
     map_of [(''service'', JStr ''auth''), (''type'', JStr ''user.create''),
             (''data'', JRef 1)]"

definition example_options :: obj where
  "example_options =
     map_of [(''service'', JStr ''auth''), (''type'', JStr ''user.create''),
             (''resource'', JStr ''projects/p1''), (''data'', JRef 1)]"

section \<open>Properties of the string methods\<close>

lemma last_index_from_absent:
  "c \<notin> set s \<Longrightarrow> last_index_from c s i found = found"
  by (induction s arbitrary: i) auto

lemma last_index_from_last:
  "c \<notin> set suf \<Longrightarrow> last_index_from c (pre @ c # suf) i found = i + int (length pre)"
proof (induction pre arbitrary: i found)
  case Nil
  then show ?case by (simp add: last_index_from_absent)
next
  case (Cons x pre)
  from Cons.IH [OF Cons.prems] show ?case by simp
qed

lemma substring_after_last:
  assumes "CHR ''/'' \<notin> set suf"
  shows "substring (pre @ CHR ''/'' # suf) (lastIndexOf (pre @ CHR ''/'' # suf) CHR ''/'' + 1) = suf"
proof -
  have "lastIndexOf (pre @ CHR ''/'' # suf) CHR ''/'' = int (length pre)"
    using last_index_from_last [OF assms, of pre 0 "- 1"] by (simp add: lastIndexOf_def)
  moreover have "nat (max 0 (min (int (length pre) + 1) (int (length (pre @ CHR ''/'' # suf)))))
      = Suc (length pre)"
    by simp
  ultimately show ?thesis
    by (simp only: substring_def) simp
qed

lemma substring_no_separator:
  assumes "CHR ''/'' \<notin> set s"
  shows "substring s (lastIndexOf s CHR ''/'' + 1) = s"
  using last_index_from_absent [OF assms, of 0 "- 1"]
  by (simp add: substring_def lastIndexOf_def)

lemma substring_has_no_separator:
  "CHR ''/'' \<notin> set (substring s (lastIndexOf s CHR ''/'' + 1))"
proof (cases "CHR ''/'' \<in> set s")
  case True
  then obtain pre suf where "s = pre @ CHR ''/'' # suf" and "CHR ''/'' \<notin> set suf"
    by (auto dest: split_list_last)
  then show ?thesis by (simp add: substring_after_last)
next
  case False
  then show ?thesis by (simp add: substring_no_separator)
qed

lemma substring_shorter:
  assumes "CHR ''/'' \<in> set s"
  shows "substring s (lastIndexOf s CHR ''/'' + 1) \<noteq> s"
proof
  assume "substring s (lastIndexOf s CHR ''/'' + 1) = s"
  with substring_has_no_separator [of s] assms show False by simp
qed

section \<open>What \<open>dataConstructor\<close> computes on a payload\<close>

lemma coerced_other: "k' \<noteq> k \<Longrightarrow> coerced parse metadata k h a k' = h a k'"
  by (auto simp: coerced_def split: jsval.splits option.splits)

lemma coerced_elsewhere: "metadata \<noteq> JRef a \<Longrightarrow> coerced parse metadata k h a = h a"
  by (auto simp: coerced_def split: jsval.splits option.splits)

lemma coerced_at:
  "coerced parse (JRef m) k h m k =
     (case h m k of
        Some (JStr s) \<Rightarrow> Some (if s = [] then JStr s else JDate (parse s))
      | v \<Rightarrow> v)"
  by (auto simp: coerced_def split: jsval.splits option.splits)

lemma coerced_dom: "dom (coerced parse metadata k h a) = dom (h a)"
  by (auto simp: coerced_def split: jsval.splits option.splits if_splits)

lemma coerced_id:
  "\<not> is_nonempty_string (h m k) \<Longrightarrow> coerced parse (JRef m) k h = h"
  by (auto simp: coerced_def is_nonempty_string_def split: jsval.splits option.splits)

lemma coerced_changes:
  "is_nonempty_string (h m k) \<Longrightarrow> coerced parse (JRef m) k h m k \<noteq> h m k"
  by (auto simp: coerced_def is_nonempty_string_def split: jsval.splits option.splits)

lemma canonical_other: "k \<noteq> ''uid'' \<Longrightarrow> canonical d h a k = h a k"
  by (auto simp: canonical_def split: jsval.splits option.splits)

lemma canonical_elsewhere: "a \<noteq> d \<Longrightarrow> canonical d h a = h a"
  by (auto simp: canonical_def split: jsval.splits option.splits)

lemma canonical_at:
  "canonical d h d ''uid'' =
     (case h d ''uid'' of
        Some (JStr s) \<Rightarrow> Some (JStr (substring s (lastIndexOf s CHR ''/'' + 1)))
      | v \<Rightarrow> v)"
  by (auto simp: canonical_def substring_def split: jsval.splits option.splits)

lemma canonical_dom: "dom (canonical d h a) = dom (h a)"
  by (auto simp: canonical_def split: jsval.splits option.splits if_splits)

lemma canonical_id:
  assumes "\<not> has_separator (h d ''uid'')"
  shows "canonical d h = h"
proof (cases "h d ''uid''")
  case None
  then show ?thesis by (simp add: canonical_def)
next
  case (Some v)
  show ?thesis
  proof (cases v)
    case (JStr s)
    with Some assms have "CHR ''/'' \<notin> set s"
      by (simp add: has_separator_def)
    then have "substring s (lastIndexOf s CHR ''/'' + 1) = s"
      by (rule substring_no_separator)
    with Some JStr show ?thesis
      by (simp add: canonical_def map_upd_triv)
  qed (simp_all add: canonical_def Some)
qed

lemma canonical_changes:
  assumes "has_separator (h d ''uid'')"
  shows "canonical d h d ''uid'' \<noteq> h d ''uid''"
proof -
  from assms obtain s where s: "h d ''uid'' = Some (JStr s)" and sep: "CHR ''/'' \<in> set s"
    by (auto simp: has_separator_def split: option.splits jsval.splits)
  from sep have "s \<noteq> []" by auto
  with s substring_shorter [OF sep] show ?thesis
    by (simp add: canonical_def)
qed

lemma bind_get_JRef: "bind_js (get_prop (JRef a) k) f h = f (field h a k) h"
  by (simp add: bind_js_def field_def)

lemma coerce_statement:
  "bind_js (get_prop (JRef m) k) (\<lambda>x.
     bind_js
       (if truthy x \<and> typeof x = ''string'' then
          (case x of
             JStr s \<Rightarrow> set_prop (JRef m) k (new_Date parse s)
           | _ \<Rightarrow> return_js ())
        else return_js ()) f) h =
   f () (coerced parse (JRef m) k h)"
  by (auto simp: bind_js_def return_js_def coerced_def new_Date_def
           split: option.splits jsval.splits)

lemma coerce_last_statement:
  "bind_js (get_prop (JRef m) k) (\<lambda>x.
     if truthy x \<and> typeof x = ''string'' then
       (case x of
          JStr s \<Rightarrow> set_prop (JRef m) k (new_Date parse s)
        | _ \<Rightarrow> return_js ())
     else return_js ()) h =
   (Inr (), coerced parse (JRef m) k h)"
  by (auto simp: bind_js_def return_js_def coerced_def new_Date_def
           split: option.splits jsval.splits)

lemma metadata_block:
  "bind_js
     (if truthy metadata then
        bind_js (get_prop metadata ''lastSignedInAt'') (\<lambda>lastSignedInAt.
        bind_js
          (if truthy lastSignedInAt \<and> typeof lastSignedInAt = ''string'' then
             (case lastSignedInAt of
                JStr s \<Rightarrow> set_prop metadata ''lastSignedInAt'' (new_Date parse s)
              | _ \<Rightarrow> return_js ())
           else return_js ()) (\<lambda>_.
        bind_js (get_prop metadata ''createdAt'') (\<lambda>createdAt.
          if truthy createdAt \<and> typeof createdAt = ''string'' then
            (case createdAt of
               JStr s \<Rightarrow> set_prop metadata ''createdAt'' (new_Date parse s)
             | _ \<Rightarrow> return_js ())
          else return_js ())))
      else return_js ()) f h =
   f () (coerced parse metadata ''createdAt'' (coerced parse metadata ''lastSignedInAt'' h))"
proof (cases metadata)
  case (JRef m)
  show ?thesis
    unfolding JRef
    by (subst bind_js_def) (simp add: coerce_statement coerce_last_statement)
qed (auto simp: coerced_def return_js_def bind_js_def)

lemma uid_statement:
  "optional_string (h d ''uid'') \<Longrightarrow>
   bind_js (get_prop (JRef d) ''uid'') (\<lambda>uid.
     bind_js
       (if truthy uid then
          (case uid of
             JStr s \<Rightarrow> set_prop (JRef d) ''uid'' (JStr (substring s (lastIndexOf s CHR ''/'' + 1)))
           | _ \<Rightarrow> throw_js TypeError)
        else return_js ()) f) h =
   f () (canonical d h)"
  by (auto simp: bind_js_def return_js_def canonical_def optional_string_def
           split: option.splits jsval.splits)

lemma data_ofD:
  "data_of h raw = Some d \<Longrightarrow> \<exists>r. raw = JRef r \<and> h r ''data'' = Some (JRef d)"
  by (auto simp: data_of_def split: jsval.splits option.splits)

text \<open>
  On an envelope whose data is an object with an absent or string identifier, the call
  returns that same data object and leaves the store with both repairs applied.
\<close>

lemma dataConstructor_payload:
  assumes "data_of h raw = Some d" and "optional_string (h d ''uid'')"
  shows "dataConstructor parse raw h = (Inr (JRef d), repaired parse d h)"
proof -
  from assms(1) obtain r where raw: "raw = JRef r" and r: "h r ''data'' = Some (JRef d)"
    by (auto dest: data_ofD)
  let ?md = "field h d ''metadata''"
  let ?h2 = "coerced parse ?md ''createdAt'' (coerced parse ?md ''lastSignedInAt'' h)"
  have data1: "field h r ''data'' = JRef d"
    using r by (simp add: field_def)
  have data2: "field ?h2 r ''data'' = JRef d"
    using r by (simp add: coerced_other field_def)
  have uid2: "optional_string (?h2 d ''uid'')"
    using assms(2) by (simp add: coerced_other)
  have data3: "get_prop (JRef r) ''data'' (canonical d ?h2) = (Inr (JRef d), canonical d ?h2)"
    using r by (simp add: coerced_other canonical_other)
  show ?thesis
    unfolding dataConstructor_def raw repaired_def
    apply (subst bind_get_JRef)
    apply (simp only: data1)
    apply (subst bind_get_JRef)
    apply (subst metadata_block)
    apply (subst bind_get_JRef)
    apply (simp only: data2)
    apply (subst uid_statement [where h = "?h2" and d = d, OF uid2])
    apply (rule data3)
    done
qed

section \<open>The store after the call\<close>

lemma metadata_field: "field h d ''metadata'' = JRef m \<longleftrightarrow> h d ''metadata'' = Some (JRef m)"
  by (auto simp: field_def split: option.splits)

lemma repaired_uid:
  "repaired parse d h d ''uid'' =
     (case h d ''uid'' of
        Some (JStr s) \<Rightarrow> Some (JStr (substring s (lastIndexOf s CHR ''/'' + 1)))
      | v \<Rightarrow> v)"
  by (simp add: repaired_def canonical_at coerced_other)

lemma repaired_temporal:
  assumes "h d ''metadata'' = Some (JRef m)" and "k = ''createdAt'' \<or> k = ''lastSignedInAt''"
  shows "repaired parse d h m k =
     (case h m k of
        Some (JStr s) \<Rightarrow> Some (if s = [] then JStr s else JDate (parse s))
      | v \<Rightarrow> v)"
proof -
  from assms(1) have md: "field h d ''metadata'' = JRef m"
    by (simp add: metadata_field)
  from assms(2) show ?thesis
  proof
    assume "k = ''createdAt''"
    then show ?thesis
      by (simp add: repaired_def md canonical_other coerced_at coerced_other)
  next
    assume "k = ''lastSignedInAt''"
    then show ?thesis
      by (simp add: repaired_def md canonical_other coerced_at coerced_other)
  qed
qed

lemma parsed_settled:
  "\<not> is_nonempty_string
       (case v of Some (JStr s) \<Rightarrow> Some (if s = [] then JStr s else JDate (parse s)) | v \<Rightarrow> v)"
  by (simp add: is_nonempty_string_def split: option.splits jsval.splits)

lemma parsed_changes:
  "is_nonempty_string v \<Longrightarrow>
   (case v of Some (JStr s) \<Rightarrow> Some (if s = [] then JStr s else JDate (parse s)) | v \<Rightarrow> v) \<noteq> v"
  by (simp add: is_nonempty_string_def split: option.splits jsval.splits)

lemma repaired_other:
  "k \<noteq> ''uid'' \<Longrightarrow> k \<noteq> ''createdAt'' \<Longrightarrow> k \<noteq> ''lastSignedInAt'' \<Longrightarrow>
   repaired parse d h a k = h a k"
  by (simp add: repaired_def canonical_other coerced_other)

lemma repaired_uid_elsewhere: "a \<noteq> d \<Longrightarrow> repaired parse d h a ''uid'' = h a ''uid''"
  by (simp add: repaired_def canonical_elsewhere coerced_other)

lemma repaired_temporal_elsewhere:
  "h d ''metadata'' \<noteq> Some (JRef a) \<Longrightarrow> k \<noteq> ''uid'' \<Longrightarrow> repaired parse d h a k = h a k"
  by (simp add: repaired_def canonical_other coerced_elsewhere metadata_field)

lemma repaired_frame:
  assumes "repaired parse d h a k \<noteq> h a k"
  shows "(a = d \<and> k = ''uid'') \<or>
         (h d ''metadata'' = Some (JRef a) \<and> (k = ''createdAt'' \<or> k = ''lastSignedInAt''))"
proof (cases "k = ''uid''")
  case True
  with assms repaired_uid_elsewhere [of a d parse h] show ?thesis
    by blast
next
  case False
  with assms repaired_temporal_elsewhere [of h d a k parse]
  have "h d ''metadata'' = Some (JRef a)"
    by blast
  moreover from assms False repaired_other [of k parse d h a]
  have "k = ''createdAt'' \<or> k = ''lastSignedInAt''"
    by blast
  ultimately show ?thesis by simp
qed

lemma repaired_dom: "dom (repaired parse d h a) = dom (h a)"
  by (simp add: repaired_def canonical_dom coerced_dom)

lemma repaired_id:
  assumes "\<not> repairable h d"
  shows "repaired parse d h = h"
proof -
  from assms have uid: "\<not> has_separator (h d ''uid'')"
    by (simp add: repairable_def)
  have "coerced parse (field h d ''metadata'') ''createdAt''
          (coerced parse (field h d ''metadata'') ''lastSignedInAt'' h) = h"
  proof (cases "field h d ''metadata''")
    case (JRef m)
    then have "h d ''metadata'' = Some (JRef m)"
      by (simp add: metadata_field)
    with assms have "\<not> is_nonempty_string (h m ''createdAt'')"
      and "\<not> is_nonempty_string (h m ''lastSignedInAt'')"
      by (simp_all add: repairable_def)
    then show ?thesis
      by (simp add: JRef coerced_id)
  qed (simp_all add: coerced_def)
  with uid show ?thesis
    by (simp add: repaired_def canonical_id)
qed

lemma repaired_changes:
  assumes "repairable h d"
  shows "repaired parse d h \<noteq> h"
proof (cases "has_separator (h d ''uid'')")
  case True
  then have "canonical d h d ''uid'' \<noteq> h d ''uid''"
    by (rule canonical_changes)
  then have "repaired parse d h d ''uid'' \<noteq> h d ''uid''"
    by (simp add: repaired_uid canonical_at)
  then show ?thesis by auto
next
  case False
  with assms obtain m where m: "h d ''metadata'' = Some (JRef m)"
    and str: "is_nonempty_string (h m ''createdAt'') \<or> is_nonempty_string (h m ''lastSignedInAt'')"
    by (simp add: repairable_def split: option.splits jsval.splits)
  from str obtain k where k: "k = ''createdAt'' \<or> k = ''lastSignedInAt''"
    and "is_nonempty_string (h m k)"
    by blast
  then have "repaired parse d h m k \<noteq> h m k"
    by (simp add: repaired_temporal [where h = h, OF m k] parsed_changes)
  then show ?thesis by auto
qed

lemma repaired_data_of:
  assumes "data_of h raw = Some d"
  shows "data_of (repaired parse d h) raw = Some d"
proof -
  from assms obtain r where "raw = JRef r" and "h r ''data'' = Some (JRef d)"
    by (auto dest: data_ofD)
  then show ?thesis
    by (simp add: data_of_def repaired_other)
qed

lemma repaired_optional_string:
  "optional_string (h d ''uid'') \<Longrightarrow> optional_string (repaired parse d h d ''uid'')"
  by (auto simp: repaired_uid optional_string_def split: option.splits jsval.splits)

lemma repaired_not_repairable: "\<not> repairable (repaired parse d h) d"
proof -
  have uid: "\<not> has_separator (repaired parse d h d ''uid'')"
    by (simp add: repaired_uid has_separator_def substring_has_no_separator
             split: option.splits jsval.splits)
  have md: "repaired parse d h d ''metadata'' = h d ''metadata''"
    by (simp add: repaired_other)
  have settled: "\<not> is_nonempty_string (repaired parse d h m k)"
    if "h d ''metadata'' = Some (JRef m)" and "k = ''createdAt'' \<or> k = ''lastSignedInAt''"
    for m k
    by (simp add: repaired_temporal [where h = h, OF that] parsed_settled)
  show ?thesis
  proof (cases "h d ''metadata''")
    case None
    with uid md show ?thesis by (simp add: repairable_def)
  next
    case (Some v)
    show ?thesis
    proof (cases v)
      case (JRef m)
      with Some have m: "h d ''metadata'' = Some (JRef m)" by simp
      from settled [OF m] uid show ?thesis
        by (simp add: repairable_def md m)
    qed (use uid md Some in \<open>simp_all add: repairable_def\<close>)
  qed
qed

lemma nonempty_string_is_string: "is_nonempty_string v \<Longrightarrow> is_string v"
  by (simp add: is_string_def is_nonempty_string_def split: option.splits jsval.splits)

lemma normalized_not_repairable:
  assumes "normalized h d"
  shows "\<not> repairable h d"
proof (cases "h d ''metadata''")
  case None
  with assms show ?thesis by (simp add: normalized_def repairable_def)
next
  case (Some v)
  show ?thesis
  proof (cases v)
    case (JRef m)
    with Some assms have "\<not> is_string (h m ''createdAt'')"
      and "\<not> is_string (h m ''lastSignedInAt'')" and "\<not> has_separator (h d ''uid'')"
      by (simp_all add: normalized_def)
    with Some JRef show ?thesis
      by (auto simp: repairable_def dest: nonempty_string_is_string)
  qed (use assms Some in \<open>simp_all add: normalized_def repairable_def\<close>)
qed

section \<open>Identifier canonicalization\<close>

text \<open>
  Claim C1. On a payload whose data is an object: when \<^verbatim>\<open>uid\<close> is a string with one
  or more separators \<^verbatim>\<open>/\<close>, the call succeeds and leaves in \<^verbatim>\<open>uid\<close> exactly the
  text after the last separator; when \<^verbatim>\<open>uid\<close> is a string without a separator it is
  left as it is; when \<^verbatim>\<open>uid\<close> is absent it stays absent and the call succeeds.
\<close>

theorem uid_canonicalization:
  "data_of h raw = Some d \<Longrightarrow>
   (h d ''uid'' = Some (JStr (pre @ CHR ''/'' # suf)) \<and> CHR ''/'' \<notin> set suf \<longrightarrow>
      (\<exists>h'. dataConstructor parse raw h = (Inr (JRef d), h') \<and>
            h' d ''uid'' = Some (JStr suf))) \<and>
   (h d ''uid'' = Some (JStr s) \<and> CHR ''/'' \<notin> set s \<longrightarrow>
      (\<exists>h'. dataConstructor parse raw h = (Inr (JRef d), h') \<and>
            h' d ''uid'' = Some (JStr s))) \<and>
   (h d ''uid'' = None \<longrightarrow>
      (\<exists>h'. dataConstructor parse raw h = (Inr (JRef d), h') \<and>
            (\<forall>a. h' a ''uid'' = h a ''uid'')))"
proof -
  assume d: "data_of h raw = Some d"
  have run: "dataConstructor parse raw h = (Inr (JRef d), repaired parse d h)"
    if "optional_string (h d ''uid'')"
    using d that by (rule dataConstructor_payload)
  have "repaired parse d h d ''uid'' = Some (JStr suf)"
    if "h d ''uid'' = Some (JStr (pre @ CHR ''/'' # suf))" and "CHR ''/'' \<notin> set suf"
    using that by (simp add: repaired_uid substring_after_last)
  moreover have "repaired parse d h d ''uid'' = Some (JStr s)"
    if "h d ''uid'' = Some (JStr s)" and "CHR ''/'' \<notin> set s"
    using that by (simp add: repaired_uid substring_no_separator)
  moreover have "repaired parse d h a ''uid'' = h a ''uid''" if "h d ''uid'' = None" for a
    using that by (cases "a = d") (simp_all add: repaired_uid repaired_uid_elsewhere)
  ultimately show ?thesis
    using run by (auto simp: optional_string_def)
qed

theorem uid_canonicalization_witness:
  "data_of url_uid_heap (JRef 0) = Some 1 \<and>
   (\<exists>h'. dataConstructor example_parse (JRef 0) url_uid_heap = (Inr (JRef 1), h') \<and>
         h' 1 ''uid'' = Some (JStr ''12345'')) \<and>
   data_of path_uid_heap (JRef 0) = Some 1 \<and>
   (\<exists>h'. dataConstructor example_parse (JRef 0) path_uid_heap = (Inr (JRef 1), h') \<and>
         h' 1 ''uid'' = Some (JStr ''c'')) \<and>
   data_of bare_uid_heap (JRef 0) = Some 1 \<and>
   (\<exists>h'. dataConstructor example_parse (JRef 0) bare_uid_heap = (Inr (JRef 1), h') \<and>
         h' 1 ''uid'' = Some (JStr ''12345'')) \<and>
   data_of no_uid_heap (JRef 0) = Some 1 \<and>
   (\<exists>h'. dataConstructor example_parse (JRef 0) no_uid_heap = (Inr (JRef 1), h') \<and>
         h' 1 ''uid'' = None)"
proof -
  have url: "data_of url_uid_heap (JRef 0) = Some 1"
    and url_uid: "url_uid_heap 1 ''uid'' = Some (JStr (''http://provider.example'' @ CHR ''/'' # ''12345''))"
    by (simp_all add: data_of_def url_uid_heap_def heap_of_def)
  have path: "data_of path_uid_heap (JRef 0) = Some 1"
    and path_uid: "path_uid_heap 1 ''uid'' = Some (JStr (''a/b'' @ CHR ''/'' # ''c''))"
    by (simp_all add: data_of_def path_uid_heap_def heap_of_def)
  have bare: "data_of bare_uid_heap (JRef 0) = Some 1"
    and bare_uid: "bare_uid_heap 1 ''uid'' = Some (JStr ''12345'')"
    by (simp_all add: data_of_def bare_uid_heap_def heap_of_def)
  have none: "data_of no_uid_heap (JRef 0) = Some 1"
    and none_uid: "no_uid_heap 1 ''uid'' = None"
    by (simp_all add: data_of_def no_uid_heap_def heap_of_def)
  from uid_canonicalization [OF url, where pre = "''http://provider.example''" and suf = "''12345''"
      and parse = example_parse] url_uid
  have "\<exists>h'. dataConstructor example_parse (JRef 0) url_uid_heap = (Inr (JRef 1), h') \<and>
         h' 1 ''uid'' = Some (JStr ''12345'')"
    by simp
  moreover from uid_canonicalization [OF path, where pre = "''a/b''" and suf = "''c''"
      and parse = example_parse] path_uid
  have "\<exists>h'. dataConstructor example_parse (JRef 0) path_uid_heap = (Inr (JRef 1), h') \<and>
         h' 1 ''uid'' = Some (JStr ''c'')"
    by simp
  moreover from uid_canonicalization [OF bare, where s = "''12345''" and parse = example_parse]
    bare_uid
  have "\<exists>h'. dataConstructor example_parse (JRef 0) bare_uid_heap = (Inr (JRef 1), h') \<and>
         h' 1 ''uid'' = Some (JStr ''12345'')"
    by simp
  moreover from uid_canonicalization [OF none, where parse = example_parse] none_uid
  have "\<exists>h'. dataConstructor example_parse (JRef 0) no_uid_heap = (Inr (JRef 1), h') \<and>
         h' 1 ''uid'' = None"
    by auto
  ultimately show ?thesis
    using url path bare none by simp
qed

section \<open>Temporal coercion\<close>

text \<open>
  Claim C2, as stated, fails on the empty string: a temporal field holding \<^verbatim>\<open>""\<close> is a
  string, yet the guard \<^verbatim>\<open>metadata.createdAt && ...\<close> is falsy on it and the field
  stays the empty string instead of becoming a date.
\<close>

theorem temporal_coercion_counterexample:
  "empty_strings_heap 2 ''createdAt'' = Some (JStr []) \<and>
   fst (dataConstructor example_parse (JRef 0) empty_strings_heap) = Inr (JRef 1) \<and>
   snd (dataConstructor example_parse (JRef 0) empty_strings_heap) 2 ''createdAt'' =
     Some (JStr [])"
proof -
  have d: "data_of empty_strings_heap (JRef 0) = Some 1"
    and uid: "optional_string (empty_strings_heap 1 ''uid'')"
    and md: "empty_strings_heap 1 ''metadata'' = Some (JRef 2)"
    and created: "empty_strings_heap 2 ''createdAt'' = Some (JStr [])"
    by (simp_all add: data_of_def optional_string_def empty_strings_heap_def heap_of_def)
  have "repaired example_parse 1 empty_strings_heap 2 ''createdAt'' = Some (JStr [])"
    using repaired_temporal [where h = empty_strings_heap, OF md, of "''createdAt''" example_parse]
      created
    by simp
  with created show ?thesis
    by (simp add: dataConstructor_payload [OF d uid])
qed

text \<open>
  Claim C2, amended. On a payload whose data is an object with an absent or string
  \<^verbatim>\<open>uid\<close>, the call succeeds, and for each of \<^verbatim>\<open>createdAt\<close> and
  \<^verbatim>\<open>lastSignedInAt\<close> of the metadata object: a non-empty string is replaced by the
  date parsed from it; anything else (the empty string, a date, an absent field) is
  left as it is. When \<^verbatim>\<open>metadata\<close> is absent no object gains a property and nothing
  but \<^verbatim>\<open>uid\<close> can differ.
\<close>

theorem temporal_coercion:
  "data_of h raw = Some d \<Longrightarrow> optional_string (h d ''uid'') \<Longrightarrow>
   k = ''createdAt'' \<or> k = ''lastSignedInAt'' \<Longrightarrow>
   \<exists>h'. dataConstructor parse raw h = (Inr (JRef d), h') \<and>
     (\<forall>m. h d ''metadata'' = Some (JRef m) \<longrightarrow>
        (\<forall>s. h m k = Some (JStr s) \<and> s \<noteq> [] \<longrightarrow> h' m k = Some (JDate (parse s))) \<and>
        (\<not> is_nonempty_string (h m k) \<longrightarrow> h' m k = h m k)) \<and>
     (h d ''metadata'' = None \<longrightarrow>
        (\<forall>a. dom (h' a) = dom (h a)) \<and> (\<forall>a k'. k' \<noteq> ''uid'' \<longrightarrow> h' a k' = h a k'))"
proof -
  assume d: "data_of h raw = Some d" and uid: "optional_string (h d ''uid'')"
    and k: "k = ''createdAt'' \<or> k = ''lastSignedInAt''"
  let ?h' = "repaired parse d h"
  have "dataConstructor parse raw h = (Inr (JRef d), ?h')"
    using d uid by (rule dataConstructor_payload)
  moreover have "?h' m k = Some (JDate (parse s))"
    if "h d ''metadata'' = Some (JRef m)" and "h m k = Some (JStr s)" and "s \<noteq> []" for m s
    using that by (simp add: repaired_temporal [where h = h, OF that(1) k])
  moreover have "?h' m k = h m k"
    if "h d ''metadata'' = Some (JRef m)" and "\<not> is_nonempty_string (h m k)" for m
    using that(2)
    by (simp add: repaired_temporal [where h = h, OF that(1) k] is_nonempty_string_def
             split: option.splits jsval.splits)
  moreover have "?h' a k' = h a k'" if "h d ''metadata'' = None" and "k' \<noteq> ''uid''" for a k'
    using that by (simp add: repaired_temporal_elsewhere)
  moreover have "dom (?h' a) = dom (h a)" for a
    by (rule repaired_dom)
  ultimately show ?thesis by blast
qed

theorem temporal_coercion_witness:
  "data_of scenario_heap (JRef 0) = Some 1 \<and> optional_string (scenario_heap 1 ''uid'') \<and>
   (\<exists>h'. dataConstructor example_parse (JRef 0) scenario_heap = (Inr (JRef 1), h') \<and>
         h' 2 ''createdAt'' = Some (JDate (Some 1588291200000))) \<and>
   (\<exists>h'. dataConstructor example_parse (JRef 0) scenario_heap = (Inr (JRef 1), h') \<and>
         h' 2 ''lastSignedInAt'' = None) \<and>
   data_of normalized_heap (JRef 0) = Some 1 \<and> optional_string (normalized_heap 1 ''uid'') \<and>
   (\<exists>h'. dataConstructor example_parse (JRef 0) normalized_heap = (Inr (JRef 1), h') \<and>
         h' 2 ''createdAt'' = Some (JDate (Some 1704067200000))) \<and>
   data_of bare_uid_heap (JRef 0) = Some 1 \<and> optional_string (bare_uid_heap 1 ''uid'') \<and>
   (\<exists>h'. dataConstructor example_parse (JRef 0) bare_uid_heap = (Inr (JRef 1), h') \<and>
         dom (h' 1) = dom (bare_uid_heap 1) \<and> h' 1 ''metadata'' = None)"
proof -
  have d: "data_of scenario_heap (JRef 0) = Some 1"
    and uid: "optional_string (scenario_heap 1 ''uid'')"
    and md: "scenario_heap 1 ''metadata'' = Some (JRef 2)"
    and created: "scenario_heap 2 ''createdAt'' = Some (JStr ''2020-05-01T00:00:00Z'')"
    and signed: "scenario_heap 2 ''lastSignedInAt'' = None"
    by (simp_all add: data_of_def optional_string_def scenario_heap_def heap_of_def)
  have parsed: "example_parse ''2020-05-01T00:00:00Z'' = Some 1588291200000"
    by (simp add: example_parse_def)
  have d2: "data_of normalized_heap (JRef 0) = Some 1"
    and uid2: "optional_string (normalized_heap 1 ''uid'')"
    and md2: "normalized_heap 1 ''metadata'' = Some (JRef 2)"
    and created2: "normalized_heap 2 ''createdAt'' = Some (JDate (Some 1704067200000))"
    by (simp_all add: data_of_def optional_string_def normalized_heap_def heap_of_def)
  have d3: "data_of bare_uid_heap (JRef 0) = Some 1"
    and uid3: "optional_string (bare_uid_heap 1 ''uid'')"
    and md3: "bare_uid_heap 1 ''metadata'' = None"
    by (simp_all add: data_of_def optional_string_def bare_uid_heap_def heap_of_def)
  from temporal_coercion [OF d uid, of "''createdAt''" example_parse] md created parsed
  have "\<exists>h'. dataConstructor example_parse (JRef 0) scenario_heap = (Inr (JRef 1), h') \<and>
         h' 2 ''createdAt'' = Some (JDate (Some 1588291200000))"
    by auto
  moreover
  from temporal_coercion [OF d uid, of "''lastSignedInAt''" example_parse] md signed
  have "\<exists>h'. dataConstructor example_parse (JRef 0) scenario_heap = (Inr (JRef 1), h') \<and>
         h' 2 ''lastSignedInAt'' = None"
    by (auto simp: is_nonempty_string_def)
  moreover
  from temporal_coercion [OF d2 uid2, of "''createdAt''" example_parse] md2 created2
  have "\<exists>h'. dataConstructor example_parse (JRef 0) normalized_heap = (Inr (JRef 1), h') \<and>
         h' 2 ''createdAt'' = Some (JDate (Some 1704067200000))"
    by (auto simp: is_nonempty_string_def)
  moreover
  from temporal_coercion [OF d3 uid3, of "''createdAt''" example_parse] md3
  have "\<exists>h'. dataConstructor example_parse (JRef 0) bare_uid_heap = (Inr (JRef 1), h') \<and>
         dom (h' 1) = dom (bare_uid_heap 1) \<and> h' 1 ''metadata'' = None"
    by auto
  ultimately show ?thesis
    using d uid d2 uid2 d3 uid3 by simp
qed

section \<open>Idempotence\<close>

text \<open>
  Claim C3. On a payload whose data is an object with an absent or string \<^verbatim>\<open>uid\<close>,
  the call succeeds, a second call on the store it leaves returns the same object and
  leaves that store as it is, and on an already normalized payload (no temporal field
  is a string, the identifier has no separator) the first call leaves the store as it
  found it.
\<close>

theorem normalization_idempotent:
  "data_of h raw = Some d \<Longrightarrow> optional_string (h d ''uid'') \<Longrightarrow>
   \<exists>h'. dataConstructor parse raw h = (Inr (JRef d), h') \<and>
        dataConstructor parse raw h' = (Inr (JRef d), h') \<and>
        (normalized h d \<longrightarrow> h' = h)"
proof -
  assume d: "data_of h raw = Some d" and uid: "optional_string (h d ''uid'')"
  let ?h' = "repaired parse d h"
  have first: "dataConstructor parse raw h = (Inr (JRef d), ?h')"
    using d uid by (rule dataConstructor_payload)
  have "dataConstructor parse raw ?h' = (Inr (JRef d), repaired parse d ?h')"
    using repaired_data_of [OF d] repaired_optional_string [where h = h, OF uid]
    by (rule dataConstructor_payload)
  moreover have "repaired parse d ?h' = ?h'"
    using repaired_not_repairable by (rule repaired_id)
  ultimately have second: "dataConstructor parse raw ?h' = (Inr (JRef d), ?h')"
    by simp
  have "?h' = h" if "normalized h d"
    using that by (simp add: normalized_not_repairable repaired_id)
  with first second show ?thesis by blast
qed

theorem normalization_idempotent_witness:
  "data_of scenario_heap (JRef 0) = Some 1 \<and> optional_string (scenario_heap 1 ''uid'') \<and>
   (\<exists>h'. dataConstructor example_parse (JRef 0) scenario_heap = (Inr (JRef 1), h') \<and>
         dataConstructor example_parse (JRef 0) h' = (Inr (JRef 1), h')) \<and>
   data_of normalized_heap (JRef 0) = Some 1 \<and> optional_string (normalized_heap 1 ''uid'') \<and>
   normalized normalized_heap 1 \<and>
   dataConstructor example_parse (JRef 0) normalized_heap = (Inr (JRef 1), normalized_heap)"
proof -
  have d: "data_of scenario_heap (JRef 0) = Some 1"
    and uid: "optional_string (scenario_heap 1 ''uid'')"
    by (simp_all add: data_of_def optional_string_def scenario_heap_def heap_of_def)
  have d2: "data_of normalized_heap (JRef 0) = Some 1"
    and uid2: "optional_string (normalized_heap 1 ''uid'')"
    and n2: "normalized normalized_heap 1"
    by (simp_all add: data_of_def optional_string_def normalized_def has_separator_def
          is_string_def normalized_heap_def heap_of_def)
  from normalization_idempotent [OF d uid, of example_parse]
  have "\<exists>h'. dataConstructor example_parse (JRef 0) scenario_heap = (Inr (JRef 1), h') \<and>
         dataConstructor example_parse (JRef 0) h' = (Inr (JRef 1), h')"
    by blast
  moreover from normalization_idempotent [OF d2 uid2, of example_parse] n2
  have "dataConstructor example_parse (JRef 0) normalized_heap = (Inr (JRef 1), normalized_heap)"
    by auto
  ultimately show ?thesis
    using d uid d2 uid2 n2 by simp
qed

section \<open>The input object is repaired in place\<close>

text \<open>
  Claim C4, as stated, fails: the call assigns to the \<^verbatim>\<open>uid\<close> property of the data
  object it was given, so the input payload differs after the call.
\<close>

theorem normalizer_purity_counterexample:
  "url_uid_heap 1 ''uid'' = Some (JStr ''http://provider.example/12345'') \<and>
   fst (dataConstructor example_parse (JRef 0) url_uid_heap) = Inr (JRef 1) \<and>
   snd (dataConstructor example_parse (JRef 0) url_uid_heap) 1 ''uid'' = Some (JStr ''12345'')"
proof -
  have d: "data_of url_uid_heap (JRef 0) = Some 1"
    and uid: "url_uid_heap 1 ''uid'' = Some (JStr ''http://provider.example/12345'')"
    by (simp_all add: data_of_def url_uid_heap_def heap_of_def)
  from uid have opt: "optional_string (url_uid_heap 1 ''uid'')"
    by (simp add: optional_string_def)
  have "substring ''http://provider.example/12345''
          (lastIndexOf ''http://provider.example/12345'' CHR ''/'' + 1) = ''12345''"
    using substring_after_last [of "''12345''" "''http://provider.example''"] by simp
  then have "repaired example_parse 1 url_uid_heap 1 ''uid'' = Some (JStr ''12345'')"
    using repaired_uid [of example_parse 1 url_uid_heap] uid by simp
  with uid show ?thesis
    by (simp add: dataConstructor_payload [OF d opt])
qed

text \<open>
  Claim C4, amended. On a payload whose data is an object with an absent or string
  \<^verbatim>\<open>uid\<close>, the call returns the data object of the envelope itself, which is still
  the envelope's data after the call, and it leaves the store as it found it exactly
  when no repair applies: the identifier has no separator and no temporal field of the
  metadata is a non-empty string. Otherwise the input payload is modified in place.
\<close>

theorem normalizer_in_place:
  "data_of h raw = Some d \<Longrightarrow> optional_string (h d ''uid'') \<Longrightarrow>
   \<exists>h'. dataConstructor parse raw h = (Inr (JRef d), h') \<and>
        data_of h' raw = Some d \<and>
        (h' = h \<longleftrightarrow> \<not> repairable h d)"
proof -
  assume d: "data_of h raw = Some d" and uid: "optional_string (h d ''uid'')"
  have "dataConstructor parse raw h = (Inr (JRef d), repaired parse d h)"
    using d uid by (rule dataConstructor_payload)
  moreover have "data_of (repaired parse d h) raw = Some d"
    using d by (rule repaired_data_of)
  moreover have "repaired parse d h = h \<longleftrightarrow> \<not> repairable h d"
    using repaired_id [of h d parse] repaired_changes [of h d parse] by blast
  ultimately show ?thesis by blast
qed

theorem normalizer_in_place_witness:
  "data_of url_uid_heap (JRef 0) = Some 1 \<and> optional_string (url_uid_heap 1 ''uid'') \<and>
   repairable url_uid_heap 1 \<and>
   (\<exists>h'. dataConstructor example_parse (JRef 0) url_uid_heap = (Inr (JRef 1), h') \<and>
         data_of h' (JRef 0) = Some 1 \<and> h' \<noteq> url_uid_heap) \<and>
   data_of normalized_heap (JRef 0) = Some 1 \<and> optional_string (normalized_heap 1 ''uid'') \<and>
   \<not> repairable normalized_heap 1 \<and>
   (\<exists>h'. dataConstructor example_parse (JRef 0) normalized_heap = (Inr (JRef 1), h') \<and>
         data_of h' (JRef 0) = Some 1 \<and> h' = normalized_heap)"
proof -
  have d: "data_of url_uid_heap (JRef 0) = Some 1"
    and uid: "optional_string (url_uid_heap 1 ''uid'')"
    and r: "repairable url_uid_heap 1"
    by (simp_all add: data_of_def optional_string_def repairable_def has_separator_def
          url_uid_heap_def heap_of_def)
  have d2: "data_of normalized_heap (JRef 0) = Some 1"
    and uid2: "optional_string (normalized_heap 1 ''uid'')"
    and r2: "\<not> repairable normalized_heap 1"
    by (simp_all add: data_of_def optional_string_def repairable_def has_separator_def
          is_nonempty_string_def normalized_heap_def heap_of_def)
  from normalizer_in_place [OF d uid, of example_parse] r
  have "\<exists>h'. dataConstructor example_parse (JRef 0) url_uid_heap = (Inr (JRef 1), h') \<and>
         data_of h' (JRef 0) = Some 1 \<and> h' \<noteq> url_uid_heap"
    by blast
  moreover from normalizer_in_place [OF d2 uid2, of example_parse] r2
  have "\<exists>h'. dataConstructor example_parse (JRef 0) normalized_heap = (Inr (JRef 1), h') \<and>
         data_of h' (JRef 0) = Some 1 \<and> h' = normalized_heap"
    by blast
  ultimately show ?thesis
    using d uid r d2 uid2 r2 by simp
qed

section \<open>Totality on the wire shape\<close>

lemma wire_shapeD:
  "wire_shape h raw \<Longrightarrow> \<exists>d. data_of h raw = Some d \<and> optional_string (h d ''uid'')"
  by (simp add: wire_shape_def split: option.splits)

text \<open>
  Claim C5, as stated, fails on the empty string: it is a temporal string of the wire
  shape that the parser rejects, yet the truthiness guard skips it, so the field is
  still the raw empty string after the call and not a date with the invalid time value.
  The call itself succeeds and returns the data object.
\<close>

theorem normalizer_total_counterexample:
  "wire_shape empty_strings_heap (JRef 0) \<and>
   empty_strings_heap 2 ''lastSignedInAt'' = Some (JStr []) \<and>
   example_parse [] = None \<and>
   fst (dataConstructor example_parse (JRef 0) empty_strings_heap) = Inr (JRef 1) \<and>
   snd (dataConstructor example_parse (JRef 0) empty_strings_heap) 2 ''lastSignedInAt'' =
     Some (JStr []) \<and>
   snd (dataConstructor example_parse (JRef 0) empty_strings_heap) 2 ''lastSignedInAt'' \<noteq>
     Some (JDate None)"
proof -
  have w: "wire_shape empty_strings_heap (JRef 0)"
    and d: "data_of empty_strings_heap (JRef 0) = Some 1"
    and uid: "optional_string (empty_strings_heap 1 ''uid'')"
    and md: "empty_strings_heap 1 ''metadata'' = Some (JRef 2)"
    and signed: "empty_strings_heap 2 ''lastSignedInAt'' = Some (JStr [])"
    by (simp_all add: wire_shape_def data_of_def optional_string_def optional_temporal_def
          empty_strings_heap_def heap_of_def)
  have parsed: "example_parse [] = None"
    by (simp add: example_parse_def)
  have "repaired example_parse 1 empty_strings_heap 2 ''lastSignedInAt'' = Some (JStr [])"
    using repaired_temporal [where h = empty_strings_heap, OF md, of "''lastSignedInAt''"
        example_parse] signed
    by simp
  with w signed parsed show ?thesis
    by (simp add: dataConstructor_payload [OF d uid])
qed

text \<open>
  Claim C5, amended. On every payload of the documented wire shape the call throws
  nothing and returns the data object of the payload, whatever the host's date parser
  does; a temporal string that the parser rejects becomes a date with the invalid time
  value when it is non-empty, and stays the empty string when it is empty.
\<close>

theorem normalizer_total:
  "wire_shape h raw \<Longrightarrow>
   \<exists>d h'. data_of h raw = Some d \<and>
     dataConstructor parse raw h = (Inr (JRef d), h') \<and>
     (\<forall>m k s. h d ''metadata'' = Some (JRef m) \<and>
        (k = ''createdAt'' \<or> k = ''lastSignedInAt'') \<and>
        h m k = Some (JStr s) \<and> parse s = None \<longrightarrow>
        h' m k = Some (if s = [] then JStr [] else JDate None))"
proof -
  assume "wire_shape h raw"
  then obtain d where d: "data_of h raw = Some d" and uid: "optional_string (h d ''uid'')"
    by (auto dest: wire_shapeD)
  have "dataConstructor parse raw h = (Inr (JRef d), repaired parse d h)"
    using d uid by (rule dataConstructor_payload)
  moreover have "repaired parse d h m k = Some (if s = [] then JStr [] else JDate None)"
    if md: "h d ''metadata'' = Some (JRef m)"
      and k: "k = ''createdAt'' \<or> k = ''lastSignedInAt''"
      and "h m k = Some (JStr s)" and "parse s = None" for m k s
    using repaired_temporal [where h = h, OF md k] that(3,4) by simp
  ultimately show ?thesis
    using d by blast
qed

theorem normalizer_total_witness:
  "wire_shape malformed_heap (JRef 0) \<and>
   data_of malformed_heap (JRef 0) = Some 1 \<and>
   (\<exists>h'. dataConstructor example_parse (JRef 0) malformed_heap = (Inr (JRef 1), h') \<and>
         h' 2 ''lastSignedInAt'' = Some (JDate None)) \<and>
   wire_shape empty_strings_heap (JRef 0) \<and>
   data_of empty_strings_heap (JRef 0) = Some 1 \<and>
   (\<exists>h'. dataConstructor example_parse (JRef 0) empty_strings_heap = (Inr (JRef 1), h') \<and>
         h' 2 ''createdAt'' = Some (JStr []))"
proof -
  have w: "wire_shape malformed_heap (JRef 0)"
    and d: "data_of malformed_heap (JRef 0) = Some 1"
    and md: "malformed_heap 1 ''metadata'' = Some (JRef 2)"
    and signed: "malformed_heap 2 ''lastSignedInAt'' = Some (JStr ''not a date'')"
    by (simp_all add: wire_shape_def data_of_def optional_string_def optional_temporal_def
          malformed_heap_def heap_of_def)
  have w2: "wire_shape empty_strings_heap (JRef 0)"
    and d2: "data_of empty_strings_heap (JRef 0) = Some 1"
    and md2: "empty_strings_heap 1 ''metadata'' = Some (JRef 2)"
    and created2: "empty_strings_heap 2 ''createdAt'' = Some (JStr [])"
    by (simp_all add: wire_shape_def data_of_def optional_string_def optional_temporal_def
          empty_strings_heap_def heap_of_def)
  have parsed: "example_parse ''not a date'' = None" and parsed2: "example_parse [] = None"
    by (simp_all add: example_parse_def)
  from normalizer_total [OF w, of example_parse] d obtain h'
    where run: "dataConstructor example_parse (JRef 0) malformed_heap = (Inr (JRef 1), h')"
      and bad: "\<And>m k s. malformed_heap 1 ''metadata'' = Some (JRef m) \<Longrightarrow>
        k = ''createdAt'' \<or> k = ''lastSignedInAt'' \<Longrightarrow>
        malformed_heap m k = Some (JStr s) \<Longrightarrow> example_parse s = None \<Longrightarrow>
        h' m k = Some (if s = [] then JStr [] else JDate None)"
    by auto
  from bad [OF md _ signed parsed] have "h' 2 ''lastSignedInAt'' = Some (JDate None)"
    by simp
  with run
  have first: "\<exists>h'. dataConstructor example_parse (JRef 0) malformed_heap = (Inr (JRef 1), h') \<and>
         h' 2 ''lastSignedInAt'' = Some (JDate None)"
    by blast
  from normalizer_total [OF w2, of example_parse] d2 obtain h2
    where run2: "dataConstructor example_parse (JRef 0) empty_strings_heap = (Inr (JRef 1), h2)"
      and bad2: "\<And>m k s. empty_strings_heap 1 ''metadata'' = Some (JRef m) \<Longrightarrow>
        k = ''createdAt'' \<or> k = ''lastSignedInAt'' \<Longrightarrow>
        empty_strings_heap m k = Some (JStr s) \<Longrightarrow> example_parse s = None \<Longrightarrow>
        h2 m k = Some (if s = [] then JStr [] else JDate None)"
    by auto
  from bad2 [OF md2 _ created2 parsed2] have "h2 2 ''createdAt'' = Some (JStr [])"
    by simp
  with run2
  have "\<exists>h'. dataConstructor example_parse (JRef 0) empty_strings_heap = (Inr (JRef 1), h') \<and>
         h' 2 ''createdAt'' = Some (JStr [])"
    by blast
  with first show ?thesis
    using w d w2 d2 by simp
qed

section \<open>Falsy fields\<close>

text \<open>
  Claim C9. The guards test truthiness: on a payload whose data is an object with an
  absent or string \<^verbatim>\<open>uid\<close>, a temporal field of the metadata that is the empty string
  is still the empty string after the call, and so is a \<^verbatim>\<open>uid\<close> that is the empty
  string.
\<close>

theorem empty_strings_left_alone:
  "data_of h raw = Some d \<Longrightarrow> optional_string (h d ''uid'') \<Longrightarrow>
   \<exists>h'. dataConstructor parse raw h = (Inr (JRef d), h') \<and>
     (\<forall>m k. h d ''metadata'' = Some (JRef m) \<and>
        (k = ''createdAt'' \<or> k = ''lastSignedInAt'') \<and> h m k = Some (JStr []) \<longrightarrow>
        h' m k = Some (JStr [])) \<and>
     (h d ''uid'' = Some (JStr []) \<longrightarrow> h' d ''uid'' = Some (JStr []))"
proof -
  assume d: "data_of h raw = Some d" and uid: "optional_string (h d ''uid'')"
  have "dataConstructor parse raw h = (Inr (JRef d), repaired parse d h)"
    using d uid by (rule dataConstructor_payload)
  moreover have "repaired parse d h m k = Some (JStr [])"
    if md: "h d ''metadata'' = Some (JRef m)"
      and k: "k = ''createdAt'' \<or> k = ''lastSignedInAt''" and "h m k = Some (JStr [])" for m k
    using repaired_temporal [where h = h, OF md k] that(3) by simp
  moreover have "repaired parse d h d ''uid'' = Some (JStr [])" if "h d ''uid'' = Some (JStr [])"
    using that by (simp add: repaired_uid substring_def)
  ultimately show ?thesis by blast
qed

theorem empty_strings_left_alone_witness:
  "data_of empty_strings_heap (JRef 0) = Some 1 \<and>
   optional_string (empty_strings_heap 1 ''uid'') \<and>
   (\<exists>h'. dataConstructor example_parse (JRef 0) empty_strings_heap = (Inr (JRef 1), h') \<and>
         h' 2 ''createdAt'' = Some (JStr []) \<and> h' 2 ''lastSignedInAt'' = Some (JStr []) \<and>
         h' 1 ''uid'' = Some (JStr []))"
proof -
  have d: "data_of empty_strings_heap (JRef 0) = Some 1"
    and uid: "optional_string (empty_strings_heap 1 ''uid'')"
    and u: "empty_strings_heap 1 ''uid'' = Some (JStr [])"
    and md: "empty_strings_heap 1 ''metadata'' = Some (JRef 2)"
    and created: "empty_strings_heap 2 ''createdAt'' = Some (JStr [])"
    and signed: "empty_strings_heap 2 ''lastSignedInAt'' = Some (JStr [])"
    by (simp_all add: data_of_def optional_string_def empty_strings_heap_def heap_of_def)
  from empty_strings_left_alone [OF d uid, of example_parse] u md created signed
  have "\<exists>h'. dataConstructor example_parse (JRef 0) empty_strings_heap = (Inr (JRef 1), h') \<and>
         h' 2 ''createdAt'' = Some (JStr []) \<and> h' 2 ''lastSignedInAt'' = Some (JStr []) \<and>
         h' 1 ''uid'' = Some (JStr [])"
    by auto
  with d uid show ?thesis by simp
qed

section \<open>Frame\<close>

text \<open>
  Claim C10. On a payload whose data is an object with an absent or string \<^verbatim>\<open>uid\<close>,
  the call returns the data object, and the only properties that can differ after it are
  \<^verbatim>\<open>uid\<close> of the data object and \<^verbatim>\<open>createdAt\<close> and \<^verbatim>\<open>lastSignedInAt\<close> of its
  metadata object; every other property of every object keeps its value, and every
  object has the same property names as before, so the record has no field beyond those
  of the input data.
\<close>

theorem normalizer_frame:
  "data_of h raw = Some d \<Longrightarrow> optional_string (h d ''uid'') \<Longrightarrow>
   \<exists>h'. dataConstructor parse raw h = (Inr (JRef d), h') \<and>
     (\<forall>a k. h' a k \<noteq> h a k \<longrightarrow>
        (a = d \<and> k = ''uid'') \<or>
        (h d ''metadata'' = Some (JRef a) \<and> (k = ''createdAt'' \<or> k = ''lastSignedInAt''))) \<and>
     (\<forall>a. dom (h' a) = dom (h a))"
proof -
  assume d: "data_of h raw = Some d" and uid: "optional_string (h d ''uid'')"
  have "dataConstructor parse raw h = (Inr (JRef d), repaired parse d h)"
    using d uid by (rule dataConstructor_payload)
  moreover have "(a = d \<and> k = ''uid'') \<or>
        (h d ''metadata'' = Some (JRef a) \<and> (k = ''createdAt'' \<or> k = ''lastSignedInAt''))"
    if "repaired parse d h a k \<noteq> h a k" for a k
    using that by (rule repaired_frame)
  moreover have "dom (repaired parse d h a) = dom (h a)" for a
    by (rule repaired_dom)
  ultimately show ?thesis by blast
qed

theorem normalizer_frame_witness:
  "data_of malformed_heap (JRef 0) = Some 1 \<and> optional_string (malformed_heap 1 ''uid'') \<and>
   (\<exists>h'. dataConstructor example_parse (JRef 0) malformed_heap = (Inr (JRef 1), h') \<and>
         h' 1 ''displayName'' = Some (JStr ''Ann'') \<and>
         h' 1 ''metadata'' = Some (JRef 2) \<and>
         h' 0 ''data'' = Some (JRef 1) \<and>
         dom (h' 1) = {''uid'', ''displayName'', ''metadata''})"
proof -
  have d: "data_of malformed_heap (JRef 0) = Some 1"
    and uid: "optional_string (malformed_heap 1 ''uid'')"
    and name: "malformed_heap 1 ''displayName'' = Some (JStr ''Ann'')"
    and md: "malformed_heap 1 ''metadata'' = Some (JRef 2)"
    and data: "malformed_heap 0 ''data'' = Some (JRef 1)"
    by (simp_all add: data_of_def optional_string_def malformed_heap_def heap_of_def)
  have keys: "dom (malformed_heap 1) = {''uid'', ''displayName'', ''metadata''}"
    by (auto simp: malformed_heap_def heap_of_def split: if_splits)
  from normalizer_frame [OF d uid, of example_parse] obtain h'
    where run: "dataConstructor example_parse (JRef 0) malformed_heap = (Inr (JRef 1), h')"
      and frame: "\<And>a k. h' a k \<noteq> malformed_heap a k \<Longrightarrow>
        (a = 1 \<and> k = ''uid'') \<or>
        (malformed_heap 1 ''metadata'' = Some (JRef a) \<and>
         (k = ''createdAt'' \<or> k = ''lastSignedInAt''))"
      and same_keys: "\<And>a. dom (h' a) = dom (malformed_heap a)"
    by blast
  from frame [of 1 "''displayName''"] name have "h' 1 ''displayName'' = Some (JStr ''Ann'')"
    by auto
  moreover from frame [of 1 "''metadata''"] md have "h' 1 ''metadata'' = Some (JRef 2)"
    by auto
  moreover from frame [of 0 "''data''"] md data have "h' 0 ''data'' = Some (JRef 1)"
    by auto
  moreover from same_keys [of 1] keys have "dom (h' 1) = {''uid'', ''displayName'', ''metadata''}"
    by simp
  ultimately show ?thesis
    using run d uid by blast
qed

section \<open>The builder's entry points\<close>

text \<open>
  Claim C6. For every builder and every pair of user callbacks, the descriptors of
  \<^verbatim>\<open>onCreate\<close> and \<^verbatim>\<open>onDelete\<close> have the same resource, the one bound in the
  builder, and the same provider id \<^verbatim>\<open>firebase.auth\<close>; their event types are
  \<^verbatim>\<open>user.create\<close> and \<^verbatim>\<open>user.delete\<close>, which differ; each holds the callback it
  was given, and both hold the normalizer \<open>dataConstructor\<close>.
\<close>

theorem builder_isolation:
  "descriptor.resource (onCreate b f) = UserBuilder.resource b \<and>
   descriptor.resource (onDelete b g) = UserBuilder.resource b \<and>
   providerId (onCreate b f) = ''firebase.auth'' \<and>
   providerId (onDelete b g) = ''firebase.auth'' \<and>
   eventType (onCreate b f) = ''user.create'' \<and>
   eventType (onDelete b g) = ''user.delete'' \<and>
   eventType (onCreate b f) \<noteq> eventType (onDelete b g) \<and>
   handler (onCreate b f) = f \<and>
   handler (onDelete b g) = g \<and>
   normalize (onCreate b f) = dataConstructor \<and>
   normalize (onDelete b g) = dataConstructor"
  by (simp add: onCreate_def onDelete_def makeCloudFunction_def provider_def)

section \<open>The builder's resource path\<close>

text \<open>
  Claim C7. When the environment variable \<^verbatim>\<open>GCLOUD_PROJECT\<close> has the value \<open>p\<close>, the
  builder that \<^verbatim>\<open>user\<close> constructs is bound to the resource \<^verbatim>\<open>projects/\<close> followed by
  \<open>p\<close>; and two environments that agree on that variable give the same builder, so no
  other variable is consulted.
\<close>

theorem user_resource:
  "(process_env ''GCLOUD_PROJECT'' = Some p \<longrightarrow>
      UserBuilder.resource (user process_env) = ''projects/'' @ p) \<and>
   (process_env' ''GCLOUD_PROJECT'' = process_env ''GCLOUD_PROJECT'' \<longrightarrow>
      user process_env' = user process_env)"
  by (simp add: user_def)

theorem user_resource_witness:
  "[''GCLOUD_PROJECT'' \<mapsto> ''p1''] ''GCLOUD_PROJECT'' = Some ''p1'' \<and>
   UserBuilder.resource (user [''GCLOUD_PROJECT'' \<mapsto> ''p1'']) = ''projects/p1'' \<and>
   [''GCLOUD_PROJECT'' \<mapsto> ''p1'', ''HOME'' \<mapsto> ''/root''] ''GCLOUD_PROJECT'' =
     [''GCLOUD_PROJECT'' \<mapsto> ''p1''] ''GCLOUD_PROJECT'' \<and>
   user [''GCLOUD_PROJECT'' \<mapsto> ''p1'', ''HOME'' \<mapsto> ''/root''] =
     user [''GCLOUD_PROJECT'' \<mapsto> ''p1'']"
  using user_resource [of "[''GCLOUD_PROJECT'' \<mapsto> ''p1'']" "''p1''"
      "[''GCLOUD_PROJECT'' \<mapsto> ''p1'', ''HOME'' \<mapsto> ''/root'']"]
  by simp

section \<open>The shape of the envelope\<close>

lemma dom_map_upd: "dom (m(k \<mapsto> v)) = insert k (dom m)"
  by simp

text \<open>
  Claim C8, as stated, fails: an envelope constructed from options of the declared
  shape has its \<^verbatim>\<open>service\<close> and \<^verbatim>\<open>type\<close> but no \<^verbatim>\<open>resource\<close> property, and
  it has none even when the options it is built from carry one.
\<close>

theorem envelope_resource_counterexample:
  "FirebaseEvent declared_options ''service'' = Some (JStr ''auth'') \<and>
   FirebaseEvent declared_options ''type'' = Some (JStr ''user.create'') \<and>
   FirebaseEvent declared_options ''resource'' = None \<and>
   example_options ''resource'' = Some (JStr ''projects/p1'') \<and>
   FirebaseEvent example_options ''resource'' = None"
  by (simp add: declared_options_def example_options_def FirebaseEvent_def option_of_def)

text \<open>
  Claim C8, amended. Every constructed envelope has exactly the six properties
  \<^verbatim>\<open>service\<close>, \<^verbatim>\<open>type\<close>, \<^verbatim>\<open>instance\<close>, \<^verbatim>\<open>uid\<close>, \<^verbatim>\<open>deviceId\<close> and \<^verbatim>\<open>data\<close>, each
  holding what the options hold under that name (\<^verbatim>\<open>undefined\<close> when the options have
  none), and it has no \<^verbatim>\<open>resource\<close> property.
\<close>

theorem FirebaseEvent_shape:
  "dom (FirebaseEvent options) =
     {''service'', ''type'', ''instance'', ''uid'', ''deviceId'', ''data''} \<and>
   FirebaseEvent options ''service'' = Some (option_of options ''service'') \<and>
   FirebaseEvent options ''type'' = Some (option_of options ''type'') \<and>
   FirebaseEvent options ''instance'' = Some (option_of options ''instance'') \<and>
   FirebaseEvent options ''uid'' = Some (option_of options ''uid'') \<and>
   FirebaseEvent options ''deviceId'' = Some (option_of options ''deviceId'') \<and>
   FirebaseEvent options ''data'' = Some (option_of options ''data'') \<and>
   FirebaseEvent options ''resource'' = None"
proof -
  have "dom (FirebaseEvent options) =
     {''service'', ''type'', ''instance'', ''uid'', ''deviceId'', ''data''}"
    unfolding FirebaseEvent_def
    by (simp only: dom_map_upd dom_empty) (simp only: insert_commute)
  moreover have "FirebaseEvent options ''service'' = Some (option_of options ''service'')"
    and "FirebaseEvent options ''type'' = Some (option_of options ''type'')"
    and "FirebaseEvent options ''instance'' = Some (option_of options ''instance'')"
    and "FirebaseEvent options ''uid'' = Some (option_of options ''uid'')"
    and "FirebaseEvent options ''deviceId'' = Some (option_of options ''deviceId'')"
    and "FirebaseEvent options ''data'' = Some (option_of options ''data'')"
    and "FirebaseEvent options ''resource'' = None"
    by (simp_all add: FirebaseEvent_def)
  ultimately show ?thesis
    by (simp only: simp_thms)
qed

section \<open>Further checks of the model\<close>

text \<open>
  The end-to-end scenario of the spec: the identifier \<^verbatim>\<open>http://x/99\<close> becomes
  \<^verbatim>\<open>99\<close> and \<^verbatim>\<open>createdAt\<close> becomes the date parsed from its string, while the
  envelope's own properties stay as they were.
\<close>

lemma scenario_normalized:
  "fst (dataConstructor example_parse (JRef 0) scenario_heap) = Inr (JRef 1) \<and>
   snd (dataConstructor example_parse (JRef 0) scenario_heap) 1 ''uid'' = Some (JStr ''99'') \<and>
   snd (dataConstructor example_parse (JRef 0) scenario_heap) 2 ''createdAt'' =
     Some (JDate (Some 1588291200000)) \<and>
   snd (dataConstructor example_parse (JRef 0) scenario_heap) 0 ''resource'' =
     Some (JStr ''projects/p1'')"
proof -
  have d: "data_of scenario_heap (JRef 0) = Some 1"
    and uid: "scenario_heap 1 ''uid'' = Some (JStr ''http://x/99'')"
    and md: "scenario_heap 1 ''metadata'' = Some (JRef 2)"
    and created: "scenario_heap 2 ''createdAt'' = Some (JStr ''2020-05-01T00:00:00Z'')"
    and res: "scenario_heap 0 ''resource'' = Some (JStr ''projects/p1'')"
    by (simp_all add: data_of_def scenario_heap_def heap_of_def)
  from uid have opt: "optional_string (scenario_heap 1 ''uid'')"
    by (simp add: optional_string_def)
  have "substring ''http://x/99'' (lastIndexOf ''http://x/99'' CHR ''/'' + 1) = ''99''"
    using substring_after_last [of "''99''" "''http://x''"] by simp
  then have "repaired example_parse 1 scenario_heap 1 ''uid'' = Some (JStr ''99'')"
    using repaired_uid [of example_parse 1 scenario_heap] uid by simp
  moreover have "repaired example_parse 1 scenario_heap 2 ''createdAt'' =
      Some (JDate (Some 1588291200000))"
    using repaired_temporal [where h = scenario_heap, OF md, of "''createdAt''" example_parse]
      created
    by (simp add: example_parse_def)
  moreover have "repaired example_parse 1 scenario_heap 0 ''resource'' =
      Some (JStr ''projects/p1'')"
    using repaired_other [of "''resource''" example_parse 1 scenario_heap 0] res by simp
  ultimately show ?thesis
    by (simp add: dataConstructor_payload [OF d opt])
qed

text \<open>
  Outside the wire shape the call can throw: with no data object the first property
  read fails, and a truthy \<^verbatim>\<open>uid\<close> that is not a string has no \<^verbatim>\<open>substring\<close>.
\<close>

lemma dataConstructor_without_data:
  "dataConstructor parse (JRef r) (heap_of []) = (Inl TypeError, heap_of [])"
  by (simp add: dataConstructor_def bind_js_def heap_of_def)

lemma dataConstructor_numeric_uid:
  "fst (dataConstructor parse (JRef 0)
          (heap_of [(0, [(''data'', JRef 1)]), (1, [(''uid'', JNum (Finite 5))])])) =
   Inl TypeError"
  by (simp add: dataConstructor_def bind_js_def return_js_def throw_js_def heap_of_def)

end
